theory Spec2Isabelle
  imports Main "HOL-Library.Word"
begin

unbundle bit_operations_syntax

section \<open>Python values, errors and built-ins\<close>

text \<open>
  A Python \<open>bytes\<close> object is a list of 8-bit values; Python integers are unbounded.
  Every exception the modelled code can raise is a constructor of \<open>error\<close>, and a
  function that can raise returns \<open>error + 'a\<close> with \<open>Inl\<close> for the exception.
  \<open>OutsideModel\<close> is no Python exception: it marks an input on which the model of a
  built-in does not say what Python does (see \<open>py_int16\<close>).
\<close>

type_synonym byte = "8 word"

datatype error =
    IndexError
  | KeyError
  | TypeError
  | ValueError
  | AttributeError
  | StructError
  | BinasciiError
  | NotImplementedError
  | ModbusException
  | ModbusIOException
  | ParameterException
  | DatastoreError
  | OutsideModel

text \<open>
  The values a dynamically typed attribute takes in the modelled code: an integer, a tuple
  of integers (what \<open>struct.unpack\<close> returns), a \<open>str\<close> or a \<open>bytes\<close> object.
\<close>

datatype pyval =
    PInt int
  | PTuple "int list"
  | PStr string
  | PBytes "byte list"

text \<open>Slice bounds: a negative bound counts from the end, and both are clipped.\<close>

definition py_bound :: "nat \<Rightarrow> int \<Rightarrow> nat" where
  "py_bound n i = (if i < 0 then nat (max 0 (i + int n)) else min n (nat i))"

text \<open>\<open>xs[i:j]\<close>, \<open>xs[i:]\<close> and \<open>xs[:j]\<close>; a slice never raises.\<close>

definition py_slice :: "'a list \<Rightarrow> int \<Rightarrow> int \<Rightarrow> 'a list" where
  "py_slice xs i j =
     (let a = py_bound (length xs) i; b = py_bound (length xs) j
      in take (b - a) (drop a xs))"

definition py_slice_from :: "'a list \<Rightarrow> int \<Rightarrow> 'a list" where
  "py_slice_from xs i = drop (py_bound (length xs) i) xs"

definition py_slice_to :: "'a list \<Rightarrow> int \<Rightarrow> 'a list" where
  "py_slice_to xs j = take (py_bound (length xs) j) xs"

text \<open>\<open>xs[i]\<close> raises \<open>IndexError\<close> out of range; a negative index counts from the end.\<close>

definition py_index :: "'a list \<Rightarrow> int \<Rightarrow> error + 'a" where
  "py_index xs i =
     (let k = (if i < 0 then i + int (length xs) else i)
      in if 0 \<le> k \<and> k < int (length xs) then Inr (xs ! nat k) else Inl IndexError)"

text \<open>\<open>bytes.find(sub)\<close>: the lowest index where \<open>sub\<close> starts, or \<open>-1\<close>.\<close>

fun py_find :: "byte list \<Rightarrow> byte list \<Rightarrow> int" where
  "py_find [] sub = (if sub = [] then 0 else - 1)"
| "py_find (x # xs) sub =
     (if take (length sub) (x # xs) = sub then 0
      else (let r = py_find xs sub in if r = - 1 then - 1 else r + 1))"

subsection \<open>struct.pack and struct.unpack, big-endian\<close>

text \<open>
  \<open>struct.pack\<close> raises \<open>struct.error\<close> when a value does not fit its field (or is not
  an integer); \<open>struct.unpack\<close> raises it when the buffer has not exactly the size of the
  format.
\<close>

definition pack_B :: "pyval \<Rightarrow> error + byte list" where
  "pack_B v = (case v of
       PInt n \<Rightarrow> if 0 \<le> n \<and> n \<le> 0xFF then Inr [word_of_int n] else Inl StructError
     | _ \<Rightarrow> Inl StructError)"

definition pack_H :: "int \<Rightarrow> error + byte list" where
  "pack_H n =
     (if 0 \<le> n \<and> n \<le> 0xFFFF
      then Inr [word_of_int (n div 256), word_of_int (n mod 256)]
      else Inl StructError)"

definition unpack_B :: "byte list \<Rightarrow> error + int list" where
  "unpack_B bs = (case bs of [b] \<Rightarrow> Inr [uint b] | _ \<Rightarrow> Inl StructError)"

definition unpack_H :: "byte list \<Rightarrow> error + int list" where
  "unpack_H bs = (case bs of [a, b] \<Rightarrow> Inr [uint a * 256 + uint b] | _ \<Rightarrow> Inl StructError)"

text \<open>Sequencing of computations that may raise.\<close>

definition bind :: "error + 'a \<Rightarrow> ('a \<Rightarrow> error + 'b) \<Rightarrow> error + 'b" where
  "bind m f = (case m of Inl e \<Rightarrow> Inl e | Inr x \<Rightarrow> f x)"

lemma bind_Inl [simp]: "bind (Inl e) f = Inl e"
  by (simp add: bind_def)

lemma bind_Inr [simp]: "bind (Inr x) f = f x"
  by (simp add: bind_def)

section \<open>The keyed transaction manager (transaction.py, DictTransactionManager)\<close>

text \<open>
  \<open>self.transactions\<close> is a dict from transaction id to the pending handle. A handle may
  or may not have a \<open>transaction_id\<close> attribute (a request has one, a deferred has none):
  \<open>tid_of h = None\<close> stands for the missing attribute.
\<close>

type_synonym 'h transactions = "int \<rightharpoonup> 'h"

definition add_transaction ::
  "('h \<Rightarrow> int option) \<Rightarrow> 'h \<Rightarrow> int option \<Rightarrow> 'h transactions \<Rightarrow> error + 'h transactions" where
  "add_transaction tid_of request tid tbl =
     (case tid of
        Some t \<Rightarrow> Inr (tbl(t \<mapsto> request))
      | None \<Rightarrow> (case tid_of request of
                   None \<Rightarrow> Inl AttributeError
                 | Some t \<Rightarrow> Inr (tbl(t \<mapsto> request))))"

text \<open>\<open>self.transactions.pop(tid, None)\<close>: the result and the table afterwards.\<close>

definition get_transaction :: "int \<Rightarrow> 'h transactions \<Rightarrow> 'h option \<times> 'h transactions" where
  "get_transaction tid tbl = (tbl tid, tbl(tid := None))"

definition del_transaction :: "int \<Rightarrow> 'h transactions \<Rightarrow> 'h transactions" where
  "del_transaction tid tbl = tbl(tid := None)"

section \<open>Protocol data units\<close>

text \<open>
  Modelled from the spec: the PDU base class of \<open>pymodbus3.pdu\<close>, which is not among the
  sources. Section 3 of the spec gives its fields: \<open>transaction_id\<close>, \<open>protocol_id\<close>,
  \<open>unit_id\<close>, \<open>function_code\<close> and \<open>should_respond\<close> (default true). The payload
  of the concrete class is the \<open>body\<close>: a bit-read request (bit_read_message.py,
  \<open>ReadBitsRequestBase\<close>: address and count), a bit-read response
  (\<open>ReadBitsResponseBase\<close>: the bits), an exception response (original function code
  and exception code), or a PDU of a class of another module, kept as its payload bytes.
\<close>

datatype pdu_body =
    ReadBitsRequest int int
  | ReadBitsResponse "bool list"
  | ExceptionBody int int
  | OtherBody "byte list"

record pdu =
  transaction_id :: int
  protocol_id :: int
  unit_id :: pyval
  function_code :: int
  should_respond :: bool
  body :: pdu_body

text \<open>
  Modelled from the spec: the exception codes (section 3) and the defaults of a freshly
  constructed PDU (transaction, protocol and unit id 0; test_transaction.py expects the
  first transaction id after a reset to be 1).
\<close>

definition IllegalFunction :: int where "IllegalFunction = 1"
definition IllegalAddress :: int where "IllegalAddress = 2"
definition IllegalValue :: int where "IllegalValue = 3"
definition SlaveFailure :: int where "SlaveFailure = 4"

definition new_pdu :: "int \<Rightarrow> pdu_body \<Rightarrow> pdu" where
  "new_pdu fc b =
     \<lparr>transaction_id = 0, protocol_id = 0, unit_id = PInt 0, function_code = fc,
      should_respond = True, body = b\<rparr>"

text \<open>
  Modelled from the spec: \<open>ExceptionResponse(function_code, exception_code)\<close>, whose
  function code is the original one with the high bit set (section 3:
  "function code = original | 0x80"; test_pdu.py prints 129 for the original code 1), and
  \<open>do_exception\<close> of a request, which builds it from the request's function code.
\<close>

definition ExceptionResponse :: "int \<Rightarrow> int \<Rightarrow> pdu" where
  "ExceptionResponse original_code exception_code =
     new_pdu (original_code OR 0x80) (ExceptionBody original_code exception_code)"

definition do_exception :: "pdu \<Rightarrow> int \<Rightarrow> pdu" where
  "do_exception request exception = ExceptionResponse (function_code request) exception"

subsection \<open>Bit-read requests (bit_read_message.py)\<close>

text \<open>\<open>ReadCoilsRequest(address, count)\<close>: function code 1.\<close>

definition ReadCoilsRequest :: "int \<Rightarrow> int \<Rightarrow> pdu" where
  "ReadCoilsRequest address count = new_pdu 1 (ReadBitsRequest address count)"

definition ReadCoilsResponse :: "bool list \<Rightarrow> pdu" where
  "ReadCoilsResponse values = new_pdu 1 (ReadBitsResponse values)"

text \<open>\<open>ReadBitsRequestBase.encode\<close>: \<open>struct.pack('>HH', self.address, self.count)\<close>.\<close>

definition read_bits_request_encode :: "pdu \<Rightarrow> error + byte list" where
  "read_bits_request_encode m =
     (case body m of
        ReadBitsRequest address count \<Rightarrow>
          bind (pack_H address) (\<lambda>a. bind (pack_H count) (\<lambda>c. Inr (a @ c)))
      | _ \<Rightarrow> Inl AttributeError)"

section \<open>Framers (transaction.py)\<close>

text \<open>
  A framer holds the receive buffer, the header of the frame it is looking at and the
  size of the fixed header. The header is a dict with fixed keys, a record here, and each
  framer has its own.
\<close>

record 'h framer =
  buffer :: "byte list"
  header :: 'h
  header_size :: int

definition add_to_frame :: "'h framer \<Rightarrow> byte list \<Rightarrow> 'h framer" where
  "add_to_frame f message = f\<lparr>buffer := buffer f @ message\<rparr>"

definition is_frame_ready :: "'h framer \<Rightarrow> bool" where
  "is_frame_ready f = (int (length (buffer f)) > header_size f)"

subsection \<open>ModbusSocketFramer\<close>

record mbap_header =
  mbap_tid :: int
  mbap_pid :: int
  mbap_len :: int
  mbap_uid :: int

definition mbap_header0 :: mbap_header where
  "mbap_header0 = \<lparr>mbap_tid = 0, mbap_pid = 0, mbap_len = 0, mbap_uid = 0\<rparr>"

definition socket_framer :: "mbap_header framer" where
  "socket_framer = \<lparr>buffer = [], header = mbap_header0, header_size = 0x07\<rparr>"

definition socket_get_frame_size :: "mbap_header framer \<Rightarrow> int" where
  "socket_get_frame_size f = header_size f + max 0 (mbap_len (header f) - 1)"

definition socket_advance_frame :: "mbap_header framer \<Rightarrow> mbap_header framer" where
  "socket_advance_frame f =
     f\<lparr>buffer := py_slice_from (buffer f) (socket_get_frame_size f), header := mbap_header0\<rparr>"

text \<open>\<open>struct.unpack('>HHHB', data)\<close>.\<close>

definition unpack_HHHB :: "byte list \<Rightarrow> error + mbap_header" where
  "unpack_HHHB bs =
     (case bs of
        [a, b, c, d, e, g, h] \<Rightarrow>
          Inr \<lparr>mbap_tid = uint a * 256 + uint b, mbap_pid = uint c * 256 + uint d,
               mbap_len = uint e * 256 + uint g, mbap_uid = uint h\<rparr>
      | _ \<Rightarrow> Inl StructError)"

text \<open>\<open>check_frame\<close> returns its answer and the framer as it leaves it.\<close>

definition socket_check_frame :: "mbap_header framer \<Rightarrow> error + (bool \<times> mbap_header framer)" where
  "socket_check_frame f =
     (if int (length (buffer f)) \<ge> header_size f then
        bind (unpack_HHHB (py_slice (buffer f) 0 (header_size f))) (\<lambda>h.
          let f1 = f\<lparr>header := h\<rparr> in
          if mbap_len h < 2 then Inr (False, socket_advance_frame f1)
          else if int (length (buffer f1)) - header_size f1 + 1 \<ge> mbap_len h
               then Inr (True, f1)
          else Inr (False, f1))
      else Inr (False, f))"

definition socket_get_frame :: "mbap_header framer \<Rightarrow> byte list" where
  "socket_get_frame f = py_slice (buffer f) (header_size f) (socket_get_frame_size f)"

definition socket_populate_result :: "mbap_header framer \<Rightarrow> pdu \<Rightarrow> pdu" where
  "socket_populate_result f result =
     result\<lparr>transaction_id := mbap_tid (header f), protocol_id := mbap_pid (header f),
             unit_id := PInt (mbap_uid (header f))\<rparr>"

text \<open>
  \<open>build_packet\<close>: \<open>struct.pack('>HHHBB', tid, pid, len(data) + 2, uid, function_code)\<close>
  followed by the data; \<open>encode\<close> is the \<open>encode\<close> method of the message's class.
\<close>

definition socket_build_packet :: "(pdu \<Rightarrow> error + byte list) \<Rightarrow> pdu \<Rightarrow> error + byte list" where
  "socket_build_packet encode message =
     bind (encode message) (\<lambda>data.
     bind (pack_H (transaction_id message)) (\<lambda>t.
     bind (pack_H (protocol_id message)) (\<lambda>p.
     bind (pack_H (int (length data) + 2)) (\<lambda>l.
     bind (pack_B (unit_id message)) (\<lambda>u.
     bind (pack_B (PInt (function_code message))) (\<lambda>c.
       Inr (t @ p @ l @ u @ c @ data)))))))"

subsection \<open>Checksums\<close>

text \<open>
  Modelled from the spec: \<open>compute_crc\<close>, \<open>check_crc\<close>, \<open>compute_lrc\<close> and
  \<open>check_lrc\<close> of \<open>pymodbus3.utilities\<close>, which is not among the sources. Section 4.1:
  CRC-16 with initial value 0xFFFF and the reflected polynomial 0xA001, each byte XORed in
  and followed by 8 right shifts; LRC-8 is the sum of the bytes modulo 256, negated, low
  byte. The framers pack the CRC with \<open>'>H'\<close> and the low byte of the register goes
  first on the wire, so the value \<open>compute_crc\<close> returns has the two bytes of the register
  swapped (test_transaction.py: uid 0xFF and function 1 give the bytes 81 80).
\<close>

definition crc_shift :: "16 word \<Rightarrow> 16 word" where
  "crc_shift c = (if bit c 0 then drop_bit 1 c XOR 0xA001 else drop_bit 1 c)"

definition crc_byte :: "16 word \<Rightarrow> byte \<Rightarrow> 16 word" where
  "crc_byte c b = (crc_shift ^^ 8) (c XOR ucast b)"

definition crc16 :: "byte list \<Rightarrow> 16 word" where
  "crc16 data = foldl crc_byte 0xFFFF data"

definition compute_crc :: "byte list \<Rightarrow> int" where
  "compute_crc data =
     (let crc = crc16 data
      in uint ((push_bit 8 crc AND 0xFF00) OR (drop_bit 8 crc AND 0x00FF)))"

definition check_crc :: "byte list \<Rightarrow> int \<Rightarrow> bool" where
  "check_crc data check = (compute_crc data = check)"

definition compute_lrc :: "byte list \<Rightarrow> int" where
  "compute_lrc data = (- (sum_list (map uint data))) mod 256"

definition check_lrc :: "byte list \<Rightarrow> int \<Rightarrow> bool" where
  "check_lrc data check = (compute_lrc data = check)"

subsection \<open>Hexadecimal text\<close>

definition hex_digit :: "byte \<Rightarrow> int option" where
  "hex_digit b =
     (let c = uint b in
      if 0x30 \<le> c \<and> c \<le> 0x39 then Some (c - 0x30)
      else if 0x41 \<le> c \<and> c \<le> 0x46 then Some (c - 0x41 + 10)
      else if 0x61 \<le> c \<and> c \<le> 0x66 then Some (c - 0x61 + 10)
      else None)"

text \<open>
  \<open>int(bs, 16)\<close> on a bytes object of hexadecimal digits; anything else raises
  \<open>ValueError\<close>. Python also accepts a sign, surrounding blanks, underscores between
  digits and a \<open>0x\<close> prefix: a text with one of those characters that is not plain
  digits is outside this model, and the result says so.
\<close>

definition int_special :: "byte list" where
  "int_special = [0x20, 0x09, 0x0A, 0x0B, 0x0C, 0x0D, 0x2B, 0x2D, 0x5F, 0x78, 0x58]"

definition py_int16 :: "byte list \<Rightarrow> error + int" where
  "py_int16 bs =
     (if bs \<noteq> [] \<and> list_all (\<lambda>b. hex_digit b \<noteq> None) bs
      then Inr (foldl (\<lambda>acc b. acc * 16 + the (hex_digit b)) 0 bs)
      else if list_ex (\<lambda>b. b \<in> set int_special) bs then Inl OutsideModel
      else Inl ValueError)"

text \<open>
  \<open>binascii.a2b_hex\<close>: pairs of hexadecimal digits; an odd length or any other
  character raises \<open>binascii.Error\<close>.
\<close>

fun a2b_hex :: "byte list \<Rightarrow> error + byte list" where
  "a2b_hex [] = Inr []"
| "a2b_hex [x] = Inl BinasciiError"
| "a2b_hex (x # y # rest) =
     (case (hex_digit x, hex_digit y) of
        (Some h, Some l) \<Rightarrow>
          (case a2b_hex rest of
             Inl e \<Rightarrow> Inl e
           | Inr bs \<Rightarrow> Inr (word_of_int (h * 16 + l) # bs))
      | _ \<Rightarrow> Inl BinasciiError)"

subsection \<open>ModbusRtuFramer\<close>

text \<open>
  Modelled from the spec: \<open>calculate_rtu_frame_size\<close> of the PDU classes (pdu.py is
  not among the sources). Section 4.2: a class has a fixed size \<open>_rtu_frame_size\<close>, or a
  byte count at \<open>_rtu_byte_count_pos\<close> giving \<open>buffer[pos] + pos + 3\<close>; test_pdu.py
  expects \<open>NotImplementedError\<close> of a class with neither.
\<close>

datatype rtu_size_rule = FixedSize int | ByteCountPos int | NoRule

definition calculate_rtu_frame_size :: "rtu_size_rule \<Rightarrow> byte list \<Rightarrow> error + int" where
  "calculate_rtu_frame_size rule buf =
     (case rule of
        FixedSize n \<Rightarrow> Inr n
      | ByteCountPos pos \<Rightarrow> bind (py_index buf pos) (\<lambda>b. Inr (uint b + pos + 3))
      | NoRule \<Rightarrow> Inl NotImplementedError)"

text \<open>
  The header starts as \<open>{'lrc': '0000', 'len': 0, 'uid': 0}\<close>; \<open>populate_header\<close> adds
  the key \<open>'crc'\<close>.
\<close>

record rtu_header =
  rtu_lrc :: pyval
  rtu_len :: int
  rtu_uid :: int
  rtu_crc :: "byte list option"

definition rtu_header0 :: rtu_header where
  "rtu_header0 = \<lparr>rtu_lrc = PStr ''0000'', rtu_len = 0, rtu_uid = 0, rtu_crc = None\<rparr>"

definition rtu_framer :: "rtu_header framer" where
  "rtu_framer = \<lparr>buffer = [], header = rtu_header0, header_size = 0x01\<rparr>"

text \<open>
  A method that assigns to the framer before it raises returns the framer as the
  exception leaves it. \<open>lookup_pdu_class\<close> is the decoder's, giving the size rule of the
  class of a function code.
\<close>

definition rtu_populate_header ::
  "(int \<Rightarrow> rtu_size_rule) \<Rightarrow> rtu_header framer \<Rightarrow> (error + unit) \<times> rtu_header framer" where
  "rtu_populate_header lookup_pdu_class f =
     (case py_index (buffer f) 0 of
        Inl e \<Rightarrow> (Inl e, f)
      | Inr u \<Rightarrow>
          let f1 = f\<lparr>header := (header f)\<lparr>rtu_uid := uint u\<rparr>\<rparr> in
          (case py_index (buffer f1) 1 of
             Inl e \<Rightarrow> (Inl e, f1)
           | Inr func_code \<Rightarrow>
               (case calculate_rtu_frame_size (lookup_pdu_class (uint func_code)) (buffer f1) of
                  Inl e \<Rightarrow> (Inl e, f1)
                | Inr sz \<Rightarrow>
                    (Inr (), f1\<lparr>header := (header f1)\<lparr>rtu_len := sz,
                       rtu_crc := Some (py_slice (buffer f1) (sz - 2) sz)\<rparr>\<rparr>))))"

definition rtu_check_frame ::
  "(int \<Rightarrow> rtu_size_rule) \<Rightarrow> rtu_header framer \<Rightarrow> (error + bool) \<times> rtu_header framer" where
  "rtu_check_frame lookup_pdu_class f =
     (case rtu_populate_header lookup_pdu_class f of
        (Inl e, f1) \<Rightarrow> if e = IndexError \<or> e = KeyError then (Inr False, f1) else (Inl e, f1)
      | (Inr _, f1) \<Rightarrow>
          let frame_size = rtu_len (header f1);
              data = py_slice_to (buffer f1) (frame_size - 2);
              crc = py_slice (buffer f1) (frame_size - 2) frame_size
          in (case (py_index crc 0, py_index crc 1) of
                (Inr c0, Inr c1) \<Rightarrow> (Inr (check_crc data (push_bit 8 (uint c0) + uint c1)), f1)
              | _ \<Rightarrow> (Inr False, f1)))"

definition rtu_advance_frame :: "rtu_header framer \<Rightarrow> rtu_header framer" where
  "rtu_advance_frame f =
     f\<lparr>buffer := py_slice_from (buffer f) (rtu_len (header f)), header := rtu_header0\<rparr>"

definition rtu_reset_frame :: "rtu_header framer \<Rightarrow> rtu_header framer" where
  "rtu_reset_frame f = f\<lparr>buffer := [], header := rtu_header0\<rparr>"

definition rtu_get_frame_size :: "rtu_header framer \<Rightarrow> int" where
  "rtu_get_frame_size f =
     (let sz = rtu_len (header f) in if sz \<noteq> 0 then sz else int (length (buffer f)) + 1)"

text \<open>
  \<open>get_frame\<close> returns the slice of the buffer, or the empty \<open>str\<close>; it assigns
  nothing, so the framer it returns is the one it was given.
\<close>

definition rtu_get_frame :: "rtu_header framer \<Rightarrow> pyval \<times> rtu_header framer" where
  "rtu_get_frame f =
     (let start = header_size f;
          end = rtu_len (header f) - 2;
          buf = py_slice (buffer f) start end
      in if end > 0 then (PBytes buf, f) else (PStr [], f))"

definition rtu_populate_result :: "rtu_header framer \<Rightarrow> pdu \<Rightarrow> pdu" where
  "rtu_populate_result f result = result\<lparr>unit_id := PInt (rtu_uid (header f))\<rparr>"

subsection \<open>ModbusAsciiFramer\<close>

record ascii_header =
  ascii_lrc :: pyval
  ascii_len :: int
  ascii_uid :: int

definition ascii_header0 :: ascii_header where
  "ascii_header0 = \<lparr>ascii_lrc = PStr ''0000'', ascii_len = 0, ascii_uid = 0\<rparr>"

definition ascii_framer :: "ascii_header framer" where
  "ascii_framer = \<lparr>buffer = [], header = ascii_header0, header_size = 0x02\<rparr>"

text \<open>The start is the colon (0x3A) and the end is carriage return, line feed.\<close>

definition ascii_check_frame :: "ascii_header framer \<Rightarrow> (error + bool) \<times> ascii_header framer" where
  "ascii_check_frame f =
     (let start = py_find (buffer f) [0x3A] in
      if start = - 1 then (Inr False, f)
      else
        let f1 = (if start > 0 then f\<lparr>buffer := py_slice_from (buffer f) start\<rparr> else f);
            start1 = (if start > 0 then 0 else start);
            end = py_find (buffer f1) [0x0D, 0x0A]
        in if end \<noteq> - 1 then
             let f2 = f1\<lparr>header := (header f1)\<lparr>ascii_len := end\<rparr>\<rparr> in
             (case py_int16 (py_slice (buffer f2) 1 3) of
                Inl e \<Rightarrow> (Inl e, f2)
              | Inr uid \<Rightarrow>
                  let f3 = f2\<lparr>header := (header f2)\<lparr>ascii_uid := uid\<rparr>\<rparr> in
                  (case py_int16 (py_slice (buffer f3) (end - 2) end) of
                     Inl e \<Rightarrow> (Inl e, f3)
                   | Inr lrc \<Rightarrow>
                       let f4 = f3\<lparr>header := (header f3)\<lparr>ascii_lrc := PInt lrc\<rparr>\<rparr> in
                       (case a2b_hex (py_slice (buffer f4) (start1 + 1) (end - 2)) of
                          Inl e \<Rightarrow> (Inl e, f4)
                        | Inr data \<Rightarrow> (Inr (check_lrc data lrc), f4))))
           else (Inr False, f1))"

definition ascii_advance_frame :: "ascii_header framer \<Rightarrow> ascii_header framer" where
  "ascii_advance_frame f =
     f\<lparr>buffer := py_slice_from (buffer f) (ascii_len (header f) + 2), header := ascii_header0\<rparr>"

definition ascii_get_frame :: "ascii_header framer \<Rightarrow> error + byte list" where
  "ascii_get_frame f =
     (let start = header_size f + 1;
          end = ascii_len (header f) - 2;
          data = py_slice (buffer f) start end
      in if end > 0 then a2b_hex data else Inr [])"

definition ascii_populate_result :: "ascii_header framer \<Rightarrow> pdu \<Rightarrow> pdu" where
  "ascii_populate_result f result = result\<lparr>unit_id := PInt (ascii_uid (header f))\<rparr>"

subsection \<open>ModbusBinaryFramer\<close>

text \<open>
  The header starts as \<open>{'crc': 0x0000, 'len': 0, 'uid': 0x00}\<close>. \<open>check_frame\<close> stores
  under \<open>'uid'\<close> what \<open>struct.unpack('>B', ...)\<close> returns, which is a tuple, and under
  \<open>'crc'\<close> the element \<open>[0]\<close> of the tuple \<open>struct.unpack('>H', ...)\<close> returns.
  The start is the byte 0x7B and the end the byte 0x7D.
\<close>

record binary_header =
  bin_crc :: int
  bin_len :: int
  bin_uid :: pyval

definition binary_header0 :: binary_header where
  "binary_header0 = \<lparr>bin_crc = 0x0000, bin_len = 0, bin_uid = PInt 0x00\<rparr>"

definition binary_framer :: "binary_header framer" where
  "binary_framer = \<lparr>buffer = [], header = binary_header0, header_size = 0x02\<rparr>"

definition binary_check_frame ::
  "binary_header framer \<Rightarrow> (error + bool) \<times> binary_header framer" where
  "binary_check_frame f =
     (let start = py_find (buffer f) [0x7B] in
      if start = - 1 then (Inr False, f)
      else
        let f1 = (if start > 0 then f\<lparr>buffer := py_slice_from (buffer f) start\<rparr> else f);
            end = py_find (buffer f1) [0x7D]
        in if end \<noteq> - 1 then
             let f2 = f1\<lparr>header := (header f1)\<lparr>bin_len := end\<rparr>\<rparr> in
             (case unpack_B (py_slice (buffer f2) 1 2) of
                Inl e \<Rightarrow> (Inl e, f2)
              | Inr uid \<Rightarrow>
                  let f3 = f2\<lparr>header := (header f2)\<lparr>bin_uid := PTuple uid\<rparr>\<rparr> in
                  (case bind (unpack_H (py_slice (buffer f3) (end - 2) end)) (\<lambda>t. py_index t 0) of
                     Inl e \<Rightarrow> (Inl e, f3)
                   | Inr crc \<Rightarrow>
                       let f4 = f3\<lparr>header := (header f3)\<lparr>bin_crc := crc\<rparr>\<rparr>;
                           data = py_slice (buffer f4) (start + 1) (end - 2)
                       in (Inr (check_crc data (bin_crc (header f4))), f4)))
           else (Inr False, f1))"

definition binary_advance_frame :: "binary_header framer \<Rightarrow> binary_header framer" where
  "binary_advance_frame f =
     f\<lparr>buffer := py_slice_from (buffer f) (bin_len (header f) + 2), header := binary_header0\<rparr>"

definition binary_get_frame :: "binary_header framer \<Rightarrow> byte list" where
  "binary_get_frame f =
     (let start = header_size f + 1;
          end = bin_len (header f) - 2;
          buf = py_slice (buffer f) start end
      in if end > 0 then buf else [])"

definition binary_populate_result :: "binary_header framer \<Rightarrow> pdu \<Rightarrow> pdu" where
  "binary_populate_result f result = result\<lparr>unit_id := bin_uid (header f)\<rparr>"

text \<open>\<open>_preflight\<close>: every byte that is 0x7D or 0x7B is written twice.\<close>

fun preflight :: "byte list \<Rightarrow> byte list" where
  "preflight [] = []"
| "preflight (d # ds) = (if d = 0x7D \<or> d = 0x7B then [d, d] else [d]) @ preflight ds"

definition binary_build_packet :: "(pdu \<Rightarrow> error + byte list) \<Rightarrow> pdu \<Rightarrow> error + byte list" where
  "binary_build_packet encode message =
     bind (encode message) (\<lambda>encoded.
       let data = preflight encoded in
       bind (pack_B (unit_id message)) (\<lambda>u.
       bind (pack_B (PInt (function_code message))) (\<lambda>c.
         let packet = u @ c @ data in
         bind (pack_H (compute_crc packet)) (\<lambda>k.
           Inr ([0x7B] @ packet @ k @ [0x7D])))))"

section \<open>Executing a request (bit_read_message.py)\<close>

text \<open>
  The datastore context is a collaborator: \<open>validate\<close> and \<open>get_values\<close> are its
  methods, and either may raise. \<open>execute\<close> returns its result together with the calls it
  made on the context, in order.
\<close>

record slave_context =
  validate :: "int \<Rightarrow> int \<Rightarrow> int \<Rightarrow> error + bool"
  get_values :: "int \<Rightarrow> int \<Rightarrow> int \<Rightarrow> error + bool list"

datatype context_call = Validate int int int | GetValues int int int

text \<open>\<open>ReadCoilsRequest.execute\<close>.\<close>

definition read_coils_execute :: "pdu \<Rightarrow> slave_context \<Rightarrow> (error + pdu) \<times> context_call list" where
  "read_coils_execute request ctx =
     (case body request of
        ReadBitsRequest address count \<Rightarrow>
          if \<not> (1 \<le> count \<and> count \<le> 0x7d0)
          then (Inr (do_exception request IllegalValue), [])
          else
            (case validate ctx (function_code request) address count of
               Inl e \<Rightarrow> (Inl e, [Validate (function_code request) address count])
             | Inr ok \<Rightarrow>
                 if \<not> ok
                 then (Inr (do_exception request IllegalAddress),
                       [Validate (function_code request) address count])
                 else
                   (case get_values ctx (function_code request) address count of
                      Inl e \<Rightarrow>
                        (Inl e, [Validate (function_code request) address count,
                                 GetValues (function_code request) address count])
                    | Inr values \<Rightarrow>
                        (Inr (ReadCoilsResponse values),
                         [Validate (function_code request) address count,
                          GetValues (function_code request) address count])))
      | _ \<Rightarrow> (Inl AttributeError, []))"

section \<open>The client decoder (factory.py, ClientDecoder)\<close>

text \<open>
  Modelled from the spec: the function codes of the response classes in the decoder's
  function table, in the table's order. The classes are defined in modules that are not
  among the sources (but for the bit-read ones, codes 1 and 2); section 4.2 lists their
  codes.
\<close>

definition client_function_codes :: "int list" where
  "client_function_codes =
     [3, 2, 4, 1, 15, 16, 6, 5, 23, 8, 7, 11, 12, 17, 20, 21, 22, 24, 43]"

text \<open>
  Modelled from the spec: \<open>ExceptionResponse.decode\<close> (pdu.py), which takes the exception
  code from the first byte of the payload (section 3: a single-byte payload).
\<close>

definition exception_decode :: "pdu \<Rightarrow> byte list \<Rightarrow> error + pdu" where
  "exception_decode response data =
     (case body response of
        ExceptionBody original_code _ \<Rightarrow>
          bind (py_index data 0) (\<lambda>b. Inr (response\<lparr>body := ExceptionBody original_code (uint b)\<rparr>))
      | _ \<Rightarrow> Inl AttributeError)"

text \<open>
  \<open>_helper\<close>. The object the lookup gives is an instance of the class registered for the
  function code, or \<open>None\<close>. \<open>decode_class fc payload\<close> stands for that instance after
  \<open>decode(payload)\<close> and the rewrap to its sub-function class; an exception response has
  no sub-function code and is left as it is.
\<close>

datatype lookup_result = ClassInstance int | ExceptionInstance pdu

definition client_helper :: "(int \<Rightarrow> byte list \<Rightarrow> error + pdu) \<Rightarrow> byte list \<Rightarrow> error + pdu" where
  "client_helper decode_class data =
     bind (py_index data 0) (\<lambda>b.
       let fc = uint b;
           response = (if fc \<in> set client_function_codes
                       then Some (ClassInstance fc) else None);
           response = (if fc > 0x80
                       then Some (ExceptionInstance (ExceptionResponse (fc AND 0x7f) IllegalFunction))
                       else response)
       in (case response of
             None \<Rightarrow> Inl ModbusException
           | Some (ExceptionInstance r) \<Rightarrow> exception_decode r (py_slice_from data 1)
           | Some (ClassInstance c) \<Rightarrow> decode_class c (py_slice_from data 1)))"

text \<open>\<open>decode\<close>: a \<open>ModbusException\<close> (or a subclass of it) is logged and gives \<open>None\<close>.\<close>

definition client_decode ::
  "(int \<Rightarrow> byte list \<Rightarrow> error + pdu) \<Rightarrow> byte list \<Rightarrow> error + pdu option" where
  "client_decode decode_class message =
     (case client_helper decode_class message of
        Inr r \<Rightarrow> Inr (Some r)
      | Inl e \<Rightarrow>
          if e = ModbusException \<or> e = ModbusIOException \<or> e = ParameterException
          then Inr None else Inl e)"

text \<open>A response class of another module, as far as this model goes: it keeps the payload.\<close>

definition keep_payload :: "int \<Rightarrow> byte list \<Rightarrow> error + pdu" where
  "keep_payload fc payload = Inr (new_pdu fc (OtherBody payload))"

section \<open>The asynchronous client (client/async.py, ModbusClientProtocol)\<close>

text \<open>
  What \<open>__iter__\<close> of a transaction manager returns. The keyed manager returns
  \<open>self.transactions.keys()\<close>, a view of the dict, which has no \<open>__next__\<close>; the FIFO
  manager returns \<open>iter(self.transactions)\<close>, an iterator.
\<close>

datatype 'a iter_result = DictKeys "'a set" | ListIterator "'a list"

definition dict_manager_iter :: "'h transactions \<Rightarrow> int iter_result" where
  "dict_manager_iter tbl = DictKeys (dom tbl)"

definition fifo_manager_iter :: "'h list \<Rightarrow> 'h iter_result" where
  "fifo_manager_iter tbl = ListIterator tbl"

text \<open>
  \<open>list(obj)\<close> on an object whose class defines \<open>__iter__\<close>: Python calls \<open>__iter__\<close>
  and raises \<open>TypeError\<close> ("iter() returned non-iterator") when the result is not an
  iterator; \<open>r\<close> is what \<open>__iter__\<close> returned.
\<close>

definition py_list :: "'a iter_result \<Rightarrow> error + 'a list" where
  "py_list r = (case r of DictKeys _ \<Rightarrow> Inl TypeError | ListIterator xs \<Rightarrow> Inr xs)"

text \<open>
  The protocol with a keyed manager: the table maps a transaction id to a deferred, named
  by a number; \<open>failed\<close> lists the deferreds whose \<open>errback\<close> was called with the
  connection error, in the order of the calls.
\<close>

record client =
  connected :: bool
  transactions :: "nat transactions"
  failed :: "nat list"

text \<open>
  The body of the loop of \<open>connection_lost\<close>, for the transaction ids left to visit:
  \<open>self.transaction.get_transaction(tid).errback(...)\<close>, where \<open>None\<close> has no \<open>errback\<close>.
\<close>

fun fail_each :: "int list \<Rightarrow> client \<Rightarrow> (error + unit) \<times> client" where
  "fail_each [] c = (Inr (), c)"
| "fail_each (tid # tids) c =
     (case get_transaction tid (transactions c) of
        (None, tbl) \<Rightarrow> (Inl AttributeError, c\<lparr>transactions := tbl\<rparr>)
      | (Some d, tbl) \<Rightarrow> fail_each tids (c\<lparr>transactions := tbl, failed := failed c @ [d]\<rparr>))"

text \<open>\<open>connection_lost\<close>: \<open>for tid in list(self.transaction)\<close>.\<close>

definition connection_lost :: "client \<Rightarrow> (error + unit) \<times> client" where
  "connection_lost c =
     (let c1 = c\<lparr>connected := False\<rparr> in
      case py_list (dict_manager_iter (transactions c1)) of
        Inl e \<Rightarrow> (Inl e, c1)
      | Inr tids \<Rightarrow> fail_each tids c1)"

section \<open>The asynchronous server (server/async.py, ModbusTcpProtocol)\<close>

text \<open>
  The server's side effects: the counter of bus messages and what was written to the
  transport, in order.
\<close>

record server =
  bus_message :: int
  written :: "byte list list"

text \<open>
  \<open>send\<close>: \<open>build_packet\<close> is the framer's, applied to the message (it may raise).
\<close>

definition send :: "(pdu \<Rightarrow> error + byte list) \<Rightarrow> server \<Rightarrow> pdu \<Rightarrow> (error + unit) \<times> server" where
  "send build_packet srv message =
     (if should_respond message then
        let srv1 = srv\<lparr>bus_message := bus_message srv + 1\<rparr> in
        (case build_packet message of
           Inl e \<Rightarrow> (Inl e, srv1)
         | Inr p \<Rightarrow> (Inr (), srv1\<lparr>written := written srv1 @ [p]\<rparr>))
      else (Inr (), srv))"

text \<open>
  \<open>_execute\<close>, up to the call of \<open>send\<close>: \<open>store\<close> is \<open>self.factory.store[...]\<close> and
  \<open>execute\<close> the \<open>execute\<close> method of the request's class; both may raise, and any
  exception gives the \<open>SlaveFailure\<close> response.
\<close>

definition server_response ::
  "(pyval \<Rightarrow> error + 'c) \<Rightarrow> (pdu \<Rightarrow> 'c \<Rightarrow> error + pdu) \<Rightarrow> pdu \<Rightarrow> pdu" where
  "server_response store execute request =
     (let response =
            (case bind (store (unit_id request)) (\<lambda>ctx. execute request ctx) of
               Inl ex \<Rightarrow> do_exception request SlaveFailure
             | Inr r \<Rightarrow> r)
      in response\<lparr>transaction_id := transaction_id request, unit_id := unit_id request\<rparr>)"

definition server_execute ::
  "(pdu \<Rightarrow> error + byte list) \<Rightarrow> (pyval \<Rightarrow> error + 'c) \<Rightarrow> (pdu \<Rightarrow> 'c \<Rightarrow> error + pdu)
     \<Rightarrow> server \<Rightarrow> pdu \<Rightarrow> (error + unit) \<times> server" where
  "server_execute build_packet store execute srv request =
     send build_packet srv (server_response store execute request)"

section \<open>The scenarios of the specification\<close>

text \<open>S1: a ReadCoils request with tid 0x1234, pid 0, uid 0xFF, address 1 and count 1.\<close>

definition s1_request :: pdu where
  "s1_request = (ReadCoilsRequest 1 1)\<lparr>transaction_id := 0x1234, protocol_id := 0, unit_id := PInt 0xFF\<rparr>"

definition s1_packet :: "byte list" where
  "s1_packet = [0x12, 0x34, 0x00, 0x00, 0x00, 0x06, 0xFF, 0x01, 0x00, 0x01, 0x00, 0x01]"

text \<open>S2: the 17 bytes of the ASCII frame \<open>:F7031389000A60\<close> followed by CR LF.\<close>

definition s2_frame :: "byte list" where
  "s2_frame = [0x3A, 0x46, 0x37, 0x30, 0x33, 0x31, 0x33, 0x38, 0x39, 0x30, 0x30, 0x30, 0x41,
               0x36, 0x30, 0x0D, 0x0A]"

text \<open>S3 and S4: the RTU and the Binary frame.\<close>

definition s3_frame :: "byte list" where
  "s3_frame = [0x00, 0x01, 0x00, 0x00, 0x00, 0x01, 0xFC, 0x1B]"

definition s4_frame :: "byte list" where
  "s4_frame = [0x7B, 0x01, 0x03, 0x00, 0x00, 0x00, 0x05, 0x85, 0xC9, 0x7D]"

text \<open>
  A request whose payload holds the end delimiter: ReadCoils at address 0x7D, count 1,
  unit 1; and the packet the Binary framer builds for it.
\<close>

definition escaped_request :: pdu where
  "escaped_request = (ReadCoilsRequest 0x7D 1)\<lparr>unit_id := PInt 1\<rparr>"

definition escaped_packet :: "byte list" where
  "escaped_packet = [0x7B, 0x01, 0x01, 0x00, 0x7D, 0x7D, 0x00, 0x01, 0x43, 0xA5, 0x7D]"

text \<open>A context that accepts every address, and one that accepts none.\<close>

definition accept_all :: slave_context where
  "accept_all = \<lparr>validate = (\<lambda>fx a c. Inr True), get_values = (\<lambda>fx a c. Inr (replicate (nat c) False))\<rparr>"

definition accept_none :: slave_context where
  "accept_none = \<lparr>validate = (\<lambda>fx a c. Inr False), get_values = (\<lambda>fx a c. Inl DatastoreError)\<rparr>"

text \<open>A client with two pending deferreds, 10 and 20, under the transaction ids 1 and 2.\<close>

definition two_pending :: client where
  "two_pending = \<lparr>connected = True, transactions = [1 \<mapsto> 10, 2 \<mapsto> 20], failed = []\<rparr>"

section \<open>Properties\<close>

subsection \<open>Evaluation rules\<close>

lemma crc_byte_unfold:
  "crc_byte c b = crc_shift (crc_shift (crc_shift (crc_shift (crc_shift (crc_shift (crc_shift
     (crc_shift (c XOR ucast b))))))))"
  by (simp add: crc_byte_def eval_nat_numeral)

lemmas crc_eval = compute_crc_def crc16_def crc_byte_unfold crc_shift_def

lemmas slice_eval = py_slice_def py_slice_from_def py_slice_to_def py_bound_def py_index_def

text \<open>
  The checksum models against the values the repository's tests expect
  (test_utilities.py and test_transaction.py).
\<close>

lemma compute_crc_test_vectors:
  "compute_crc [0xFF, 0x01] = 0x8180"
  "check_crc [0x12, 0x34, 0x23, 0x45, 0x34, 0x56, 0x45, 0x67] 0xe2db"
  "check_crc [0x00, 0x01, 0x00, 0x00, 0x00, 0x01] 0xFC1B"
  by (simp_all add: check_crc_def crc_eval)

lemma compute_lrc_test_vector:
  "check_lrc [0x12, 0x34, 0x23, 0x45, 0x34, 0x56, 0x45, 0x67] 0x1c"
  by (simp add: check_lrc_def compute_lrc_def)

subsection \<open>The MBAP framer\<close>

text \<open>
  C1. For the ReadCoils request of scenario S1 (tid 0x1234, pid 0, uid 0xFF, address 1,
  count 1) \<open>build_packet\<close> of the socket framer gives exactly the bytes
  12 34 00 00 00 06 FF 01 00 01 00 01. Fed to a fresh framer they make one ready frame:
  \<open>is_frame_ready\<close> and \<open>check_frame\<close> are true, \<open>get_frame\<close> is the function code
  01 followed by the payload 00 01 00 01, and after \<open>advance_frame\<close> the framer is the
  fresh one again, with no frame ready.
\<close>

theorem mbap_read_coils_scenario:
  "socket_build_packet read_bits_request_encode s1_request = Inr s1_packet
   \<and> is_frame_ready (add_to_frame socket_framer s1_packet)
   \<and> socket_check_frame (add_to_frame socket_framer s1_packet)
       = Inr (True, \<lparr>buffer = s1_packet,
                     header = \<lparr>mbap_tid = 0x1234, mbap_pid = 0, mbap_len = 6, mbap_uid = 0xFF\<rparr>,
                     header_size = 7\<rparr>)
   \<and> socket_get_frame \<lparr>buffer = s1_packet,
                     header = \<lparr>mbap_tid = 0x1234, mbap_pid = 0, mbap_len = 6, mbap_uid = 0xFF\<rparr>,
                     header_size = 7\<rparr> = [0x01, 0x00, 0x01, 0x00, 0x01]
   \<and> socket_advance_frame \<lparr>buffer = s1_packet,
                     header = \<lparr>mbap_tid = 0x1234, mbap_pid = 0, mbap_len = 6, mbap_uid = 0xFF\<rparr>,
                     header_size = 7\<rparr> = socket_framer
   \<and> \<not> is_frame_ready socket_framer"
  by (simp add: s1_request_def s1_packet_def socket_build_packet_def read_bits_request_encode_def
      ReadCoilsRequest_def new_pdu_def pack_H_def pack_B_def is_frame_ready_def add_to_frame_def
      socket_framer_def socket_check_frame_def unpack_HHHB_def slice_eval mbap_header0_def
      socket_get_frame_def socket_get_frame_size_def socket_advance_frame_def)

subsection \<open>The ASCII framer\<close>

text \<open>
  C4, as stated: after the 17 bytes of the frame of scenario S2 are fed to a fresh ASCII
  framer, \<open>get_frame\<close> returns the six bytes F7 03 13 89 00 0A. It does not: the frame
  it returns starts after the unit id.
\<close>

theorem ascii_get_frame_six_bytes_counterexample:
  "ascii_get_frame (snd (ascii_check_frame (add_to_frame ascii_framer s2_frame)))
     \<noteq> Inr [0xF7, 0x03, 0x13, 0x89, 0x00, 0x0A]"
  by (simp add: ascii_check_frame_def add_to_frame_def ascii_framer_def ascii_header0_def
      s2_frame_def slice_eval py_int16_def hex_digit_def check_lrc_def compute_lrc_def
      ascii_get_frame_def)

text \<open>
  C4, amended: after the 17 bytes of the frame of scenario S2 are fed to a fresh ASCII
  framer, \<open>check_frame\<close> returns true, leaving the header with length 15, unit id 0xF7
  and LRC 0x60, and \<open>get_frame\<close> returns the five bytes 03 13 89 00 0A: the function
  code, the address 0x1389 and the count 0x000A, without the unit id.
\<close>

theorem ascii_get_frame_without_uid:
  "ascii_check_frame (add_to_frame ascii_framer s2_frame)
     = (Inr True, \<lparr>buffer = s2_frame,
                   header = \<lparr>ascii_lrc = PInt 0x60, ascii_len = 15, ascii_uid = 0xF7\<rparr>,
                   header_size = 2\<rparr>)
   \<and> ascii_get_frame \<lparr>buffer = s2_frame,
                   header = \<lparr>ascii_lrc = PInt 0x60, ascii_len = 15, ascii_uid = 0xF7\<rparr>,
                   header_size = 2\<rparr> = Inr [0x03, 0x13, 0x89, 0x00, 0x0A]"
  by (simp add: ascii_check_frame_def add_to_frame_def ascii_framer_def ascii_header0_def
      s2_frame_def slice_eval py_int16_def hex_digit_def check_lrc_def compute_lrc_def
      ascii_get_frame_def)

subsection \<open>The RTU framer\<close>

text \<open>
  C9. In every state of the RTU framer whose header length is at most 2 (so that the end
  offset \<open>len - 2\<close> is not positive, as with the initial length 0), \<open>get_frame\<close> returns
  the empty frame and leaves the framer, buffer and header, as it was; it has no way to
  raise.
\<close>

theorem rtu_get_frame_short:
  "rtu_len (header f) \<le> 2 \<Longrightarrow> rtu_get_frame f = (PStr [], f)"
  by (simp add: rtu_get_frame_def Let_def)

theorem rtu_get_frame_short_witness:
  "rtu_len (header (add_to_frame rtu_framer [0x00, 0x01, 0x00])) \<le> 2
   \<and> rtu_get_frame (add_to_frame rtu_framer [0x00, 0x01, 0x00])
       = (PStr [], add_to_frame rtu_framer [0x00, 0x01, 0x00])"
  using rtu_get_frame_short [of "add_to_frame rtu_framer [0x00, 0x01, 0x00]"]
  by (simp add: add_to_frame_def rtu_framer_def rtu_header0_def)


subsection \<open>The keyed transaction manager\<close>

text \<open>
  C8. Keyed transaction manager: after \<open>add_transaction(h, tid)\<close> the first
  \<open>get_transaction(tid)\<close> returns \<open>h\<close>, a second one with no add in between returns
  \<open>None\<close>, and \<open>del_transaction(tid)\<close> on a tid that is not in the table leaves the
  table as it was.
\<close>

theorem dict_add_get_once:
  "\<exists>t1 t2. add_transaction tid_of h (Some tid) tbl = Inr t1
     \<and> get_transaction tid t1 = (Some h, t2)
     \<and> get_transaction tid t2 = (None, t2)
     \<and> (tid \<notin> dom tbl \<longrightarrow> del_transaction tid tbl = tbl)"
  by (auto simp: add_transaction_def get_transaction_def del_transaction_def fun_upd_idem)

theorem dict_add_get_once_witness:
  "(5::int) \<notin> dom (Map.empty :: nat transactions)
   \<and> del_transaction 5 (Map.empty :: nat transactions) = Map.empty
   \<and> get_transaction 5 (Map.empty(5 \<mapsto> (7::nat))) = (Some 7, Map.empty)"
  using dict_add_get_once [of "\<lambda>_. None" "7::nat" 5 Map.empty]
  by (auto simp: add_transaction_def get_transaction_def)

end
